theory Spec2Isabelle
  imports Main
begin

section \<open>Python values as the handler sees them\<close>

text \<open>
  Both the inbound request body and the upstream response body reach the code as the
  result of a JSON parser, so every value the two functions of \<^verbatim>\<open>main.py\<close> touch is
  one of Python's \<^verbatim>\<open>None\<close>, \<^verbatim>\<open>bool\<close>, \<^verbatim>\<open>int\<close>, \<^verbatim>\<open>float\<close>, \<^verbatim>\<open>str\<close>, \<^verbatim>\<open>list\<close> or \<^verbatim>\<open>dict\<close>
  (with string keys). A float is kept as mantissa and binary exponent, or as one of the
  non-finite values the parser accepts; only its being zero is ever inspected. A dict is
  an association list read with \<^const>\<open>map_of\<close>.
\<close>

datatype pyfloat = Finite int int | Infinite bool | NaN

datatype json =
    JNull
  | JBool bool
  | JInt int
  | JFloat pyfloat
  | JString string
  | JArray "json list"
  | JObject "(string \<times> json) list"

text \<open>
  The exception classes that can arise. \<^verbatim>\<open>ConnectionError\<close> stands for every transport
  failure of \<^verbatim>\<open>requests.get\<close> (connection refused, timeout, ...), \<^verbatim>\<open>HTTPError\<close> is what
  \<^verbatim>\<open>raise_for_status\<close> raises and \<^verbatim>\<open>JSONDecodeError\<close> is what \<^verbatim>\<open>Response.json\<close> raises
  (\<^verbatim>\<open>requests.exceptions.JSONDecodeError\<close>); all three derive from
  \<^verbatim>\<open>requests.exceptions.RequestException\<close>.
\<close>

datatype exn =
    ConnectionError
  | HTTPError
  | JSONDecodeError
  | KeyError
  | IndexError
  | TypeError
  | AttributeError

fun is_RequestException :: "exn \<Rightarrow> bool" where
  "is_RequestException ConnectionError = True"
| "is_RequestException HTTPError = True"
| "is_RequestException JSONDecodeError = True"
| "is_RequestException _ = False"

text \<open>Sequencing of two steps, the first of which may raise.\<close>

definition and_then :: "exn + 'a \<Rightarrow> ('a \<Rightarrow> exn + 'b) \<Rightarrow> exn + 'b" where
  "and_then m f = (case m of Inl e \<Rightarrow> Inl e | Inr x \<Rightarrow> f x)"

text \<open>Truth value testing, as \<^verbatim>\<open>if x\<close> and \<^verbatim>\<open>not x\<close> do it.\<close>

fun truthy :: "json \<Rightarrow> bool" where
  "truthy JNull = False"
| "truthy (JBool b) = b"
| "truthy (JInt i) = (i \<noteq> 0)"
| "truthy (JFloat (Finite m e)) = (m \<noteq> 0)"
| "truthy (JFloat (Infinite s)) = True"
| "truthy (JFloat NaN) = True"
| "truthy (JString s) = (s \<noteq> [])"
| "truthy (JArray xs) = (xs \<noteq> [])"
| "truthy (JObject kvs) = (kvs \<noteq> [])"

text \<open>\<^verbatim>\<open>d.get(k)\<close> on a dict: the value, or \<^verbatim>\<open>None\<close> for a missing key.\<close>

definition dict_get :: "(string \<times> json) list \<Rightarrow> string \<Rightarrow> json" where
  "dict_get kvs k = (case map_of kvs k of None \<Rightarrow> JNull | Some v \<Rightarrow> v)"

text \<open>
  \<^verbatim>\<open>x.get(k)\<close> on an arbitrary parsed value: only a dict has the attribute \<^verbatim>\<open>get\<close>.
\<close>

fun py_get :: "json \<Rightarrow> string \<Rightarrow> exn + json" where
  "py_get (JObject kvs) k = Inr (dict_get kvs k)"
| "py_get _ k = Inl AttributeError"

text \<open>\<^verbatim>\<open>x[k]\<close> with a string \<^verbatim>\<open>k\<close>.\<close>

fun py_getitem :: "json \<Rightarrow> string \<Rightarrow> exn + json" where
  "py_getitem (JObject kvs) k =
     (case map_of kvs k of None \<Rightarrow> Inl KeyError | Some v \<Rightarrow> Inr v)"
| "py_getitem _ k = Inl TypeError"

text \<open>
  \<^verbatim>\<open>x[0]\<close>. A dict parsed from JSON has string keys only, so the integer key is never
  found; a string yields its first character as a string of length one.
\<close>

fun py_first :: "json \<Rightarrow> exn + json" where
  "py_first (JArray []) = Inl IndexError"
| "py_first (JArray (x # xs)) = Inr x"
| "py_first (JString []) = Inl IndexError"
| "py_first (JString (c # cs)) = Inr (JString [c])"
| "py_first (JObject kvs) = Inl KeyError"
| "py_first _ = Inl TypeError"

fun str_contains :: "string \<Rightarrow> string \<Rightarrow> bool" where
  "str_contains needle [] = (needle = [])"
| "str_contains needle (c # cs) =
     (take (length needle) (c # cs) = needle \<or> str_contains needle cs)"

text \<open>
  \<^verbatim>\<open>k in x\<close> with a string \<^verbatim>\<open>k\<close>: key membership on a dict, element membership on a
  list, substring test on a string; the other values are not iterable.
\<close>

fun py_in :: "string \<Rightarrow> json \<Rightarrow> exn + bool" where
  "py_in k (JObject kvs) = Inr (k \<in> set (map fst kvs))"
| "py_in k (JArray xs) = Inr (JString k \<in> set xs)"
| "py_in k (JString s) = Inr (str_contains k s)"
| "py_in k _ = Inl TypeError"

text \<open>
  Python's rendering of a parsed value. \<^verbatim>\<open>str()\<close> of \<^verbatim>\<open>None\<close>, of a bool and of an int is
  \<^verbatim>\<open>None\<close>, \<^verbatim>\<open>True\<close> or \<^verbatim>\<open>False\<close>, and the decimal digits with a leading minus sign; a
  list is rendered as \<^verbatim>\<open>[a, b]\<close> and a dict as \<^verbatim>\<open>{k: a, l: b}\<close>, in insertion order, from
  the \<^verbatim>\<open>repr()\<close> of their members. The \<^verbatim>\<open>repr()\<close> of a float (shortest digits that read
  back) and of a string (choice of quotes, escapes) are not modelled: they are the
  parameter \<open>leaf\<close>, consulted for these two kinds of value only.
\<close>

definition digit_char :: "nat \<Rightarrow> char" where
  "digit_char d = ''0123456789'' ! d"

fun show_nat :: "nat \<Rightarrow> string" where
  "show_nat n =
     (if n < 10 then [digit_char n] else show_nat (n div 10) @ [digit_char (n mod 10)])"

declare show_nat.simps [simp del]

definition show_int :: "int \<Rightarrow> string" where
  "show_int i = (if i < 0 then CHR ''-'' # show_nat (nat (- i)) else show_nat (nat i))"

fun str_join :: "string \<Rightarrow> string list \<Rightarrow> string" where
  "str_join sep [] = []"
| "str_join sep [x] = x"
| "str_join sep (x # y # ys) = x @ sep @ str_join sep (y # ys)"

fun py_repr :: "(json \<Rightarrow> string) \<Rightarrow> json \<Rightarrow> string" where
  "py_repr leaf JNull = ''None''"
| "py_repr leaf (JBool b) = (if b then ''True'' else ''False'')"
| "py_repr leaf (JInt i) = show_int i"
| "py_repr leaf (JFloat f) = leaf (JFloat f)"
| "py_repr leaf (JString s) = leaf (JString s)"
| "py_repr leaf (JArray xs) = ''['' @ str_join '', '' (map (py_repr leaf) xs) @ '']''"
| "py_repr leaf (JObject kvs) =
     ''{'' @ str_join '', ''
        (map (\<lambda>(k, v). leaf (JString k) @ '': '' @ py_repr leaf v) kvs) @ ''}''"

text \<open>
  The replacement field \<^verbatim>\<open>{card_name}\<close> of an f-string inserts \<^verbatim>\<open>str(card_name)\<close>: a string
  as it is, any other value in the rendering above.
\<close>

definition format_value :: "(json \<Rightarrow> string) \<Rightarrow> json \<Rightarrow> string" where
  "format_value str_of v = (case v of JString s \<Rightarrow> s | _ \<Rightarrow> py_repr str_of v)"

section \<open>The upstream card API\<close>

text \<open>
  What \<^verbatim>\<open>requests.get(base_url, params={"name": card_name})\<close> meets: the upstream is a
  function of the card name that either fails at the transport level (\<open>None\<close>) or
  answers with a status code and a body, which is JSON text (given parsed) or not.
\<close>

record response =
  status_code :: nat
  body :: "json option"

type_synonym upstream = "json \<Rightarrow> response option"

definition requests_get :: "upstream \<Rightarrow> json \<Rightarrow> exn + response" where
  "requests_get api card_name =
     (case api card_name of None \<Rightarrow> Inl ConnectionError | Some r \<Rightarrow> Inr r)"

definition raise_for_status :: "response \<Rightarrow> exn + unit" where
  "raise_for_status r =
     (if 400 \<le> status_code r \<and> status_code r < 600 then Inl HTTPError else Inr ())"

definition response_json :: "response \<Rightarrow> exn + json" where
  "response_json r = (case body r of None \<Rightarrow> Inl JSONDecodeError | Some j \<Rightarrow> Inr j)"

section \<open>Lookup: \<^verbatim>\<open>get_mtg_card_info\<close>\<close>

text \<open>The dict literal built from the first card of the result.\<close>

definition card_info :: "json \<Rightarrow> exn + json" where
  "card_info card_data =
     and_then (py_get card_data ''name'') (\<lambda>name.
     and_then (py_get card_data ''manaCost'') (\<lambda>mana_cost.
     and_then (py_get card_data ''type'') (\<lambda>type.
     and_then (py_get card_data ''text'') (\<lambda>text.
     and_then (py_get card_data ''power'') (\<lambda>power.
     and_then (py_get card_data ''toughness'') (\<lambda>toughness.
     and_then (py_get card_data ''imageUrl'') (\<lambda>image_url.
       Inr (JObject
         [(''name'', name),
          (''mana_cost'', mana_cost),
          (''type'', type),
          (''text'', text),
          (''power'', power),
          (''toughness'', toughness),
          (''image_url'', image_url)]))))))))"

text \<open>The body of the \<^verbatim>\<open>try\<close> block.\<close>

definition lookup_try :: "upstream \<Rightarrow> json \<Rightarrow> exn + json" where
  "lookup_try api card_name =
     and_then (requests_get api card_name) (\<lambda>response.
     and_then (raise_for_status response) (\<lambda>_.
     and_then (response_json response) (\<lambda>data.
     and_then (py_get data ''cards'') (\<lambda>cards.
       if \<not> truthy cards then Inr JNull
       else
         and_then (py_getitem data ''cards'') (\<lambda>cards.
         and_then (py_first cards) (\<lambda>card_data.
           card_info card_data))))))"

text \<open>
  The two \<^verbatim>\<open>except\<close> clauses turn a \<^verbatim>\<open>RequestException\<close>, a \<^verbatim>\<open>KeyError\<close> and an
  \<^verbatim>\<open>IndexError\<close> into the result \<^verbatim>\<open>None\<close>; any other exception leaves the function.
\<close>

definition get_mtg_card_info :: "upstream \<Rightarrow> json \<Rightarrow> exn + json" where
  "get_mtg_card_info api card_name =
     (case lookup_try api card_name of
        Inr result \<Rightarrow> Inr result
      | Inl e \<Rightarrow>
          if is_RequestException e then Inr JNull
          else if e = KeyError \<or> e = IndexError then Inr JNull
          else Inl e)"

section \<open>The request handler: \<^verbatim>\<open>mtg_card_tool\<close>\<close>

text \<open>
  The request object through the three members the handler reads. \<open>json_body\<close> is the
  parsed body, \<open>None\<close> when the body is not JSON text; \<^verbatim>\<open>get_json(silent=True)\<close> then
  returns \<^verbatim>\<open>None\<close> instead of raising.
\<close>

record request =
  http_method :: string
  is_json :: bool
  json_body :: "json option"

definition get_json_silent :: "request \<Rightarrow> json" where
  "get_json_silent req = (case json_body req of None \<Rightarrow> JNull | Some j \<Rightarrow> j)"

text \<open>A handler result \<^verbatim>\<open>(jsonify(payload), status)\<close>.\<close>

type_synonym reply = "json \<times> nat"

definition error_payload :: "string \<Rightarrow> json" where
  "error_payload msg = JObject [(''error'', JString msg)]"

definition not_found_message :: "(json \<Rightarrow> string) \<Rightarrow> json \<Rightarrow> string" where
  "not_found_message str_of card_name =
     ''Card '' @ CHR 0x27 # format_value str_of card_name
       @ CHR 0x27 # '' not found or API is unavailable.''"

text \<open>
  \<^verbatim>\<open>not request_json or "card_name" not in request_json\<close>: the right operand is
  evaluated only for a truthy body, and may raise.
\<close>

definition card_name_missing :: "json \<Rightarrow> exn + bool" where
  "card_name_missing request_json =
     (if \<not> truthy request_json then Inr True
      else and_then (py_in ''card_name'' request_json) (\<lambda>present. Inr (\<not> present)))"

definition mtg_card_tool :: "(json \<Rightarrow> string) \<Rightarrow> upstream \<Rightarrow> request \<Rightarrow> exn + reply" where
  "mtg_card_tool str_of api req =
     (if http_method req \<noteq> ''POST'' then
        Inr (error_payload ''Invalid request method. Please use POST.'', 405)
      else if \<not> is_json req then
        Inr (error_payload ''Invalid content type. Please send a JSON payload.'', 415)
      else
        let request_json = get_json_silent req in
        and_then (card_name_missing request_json) (\<lambda>missing.
          if missing then
            Inr (error_payload ''Missing 'card_name' in JSON payload.'', 400)
          else
            and_then (py_getitem request_json ''card_name'') (\<lambda>card_name.
            and_then (get_mtg_card_info api card_name) (\<lambda>card_data.
              if truthy card_data then Inr (card_data, 200)
              else Inr (error_payload (not_found_message str_of card_name), 404)))))"

section \<open>Auxiliary facts\<close>

lemma map_of_in_keys: "map_of kvs k = Some v \<Longrightarrow> k \<in> fst ` set kvs"
  by (induction kvs) (auto split: if_splits)

lemma handler_with_card_name:
  assumes "http_method req = ''POST''" and "is_json req"
    and "json_body req = Some (JObject kvs)" and "map_of kvs ''card_name'' = Some v"
  shows "mtg_card_tool str_of api req =
     (case get_mtg_card_info api v of
        Inl e \<Rightarrow> Inl e
      | Inr card_data \<Rightarrow>
          if truthy card_data then Inr (card_data, 200)
          else Inr (error_payload (not_found_message str_of v), 404))"
proof -
  have ne: "kvs \<noteq> []" using assms(4) by auto
  have mem: "''card_name'' \<in> fst ` set kvs" using assms(4) by (rule map_of_in_keys)
  show ?thesis
    using assms ne mem
    by (simp add: mtg_card_tool_def card_name_missing_def get_json_silent_def and_then_def
        split: sum.splits)
qed

lemma lookup_raises_only:
  "get_mtg_card_info api n = Inl e \<Longrightarrow> e = TypeError \<or> e = AttributeError"
  by (cases e) (auto simp: get_mtg_card_info_def split: sum.splits if_splits)

lemma lookup_found:
  assumes "api n = Some \<lparr>status_code = s, body = Some (JObject d)\<rparr>"
    and "s < 400 \<or> 600 \<le> s"
    and "map_of d ''cards'' = Some (JArray (JObject c # rest))"
  shows "get_mtg_card_info api n = Inr (JObject
         [(''name'', dict_get c ''name''),
          (''mana_cost'', dict_get c ''manaCost''),
          (''type'', dict_get c ''type''),
          (''text'', dict_get c ''text''),
          (''power'', dict_get c ''power''),
          (''toughness'', dict_get c ''toughness''),
          (''image_url'', dict_get c ''imageUrl'')])"
  using assms
  by (auto simp: get_mtg_card_info_def lookup_try_def card_info_def requests_get_def
      raise_for_status_def response_json_def and_then_def dict_get_def)

lemma lookup_network_failure: "api n = None \<Longrightarrow> get_mtg_card_info api n = Inr JNull"
  by (simp add: get_mtg_card_info_def lookup_try_def requests_get_def and_then_def)

lemma lookup_http_error:
  "api n = Some r \<Longrightarrow> 400 \<le> status_code r \<Longrightarrow> status_code r < 600 \<Longrightarrow>
   get_mtg_card_info api n = Inr JNull"
  by (simp add: get_mtg_card_info_def lookup_try_def requests_get_def raise_for_status_def
      and_then_def)

lemma lookup_malformed_json:
  "api n = Some r \<Longrightarrow> body r = None \<Longrightarrow> get_mtg_card_info api n = Inr JNull"
  by (simp add: get_mtg_card_info_def lookup_try_def requests_get_def raise_for_status_def
      response_json_def and_then_def)

lemma lookup_falsy_cards:
  "api n = Some r \<Longrightarrow> body r = Some (JObject d) \<Longrightarrow> \<not> truthy (dict_get d ''cards'') \<Longrightarrow>
   get_mtg_card_info api n = Inr JNull"
  by (simp add: get_mtg_card_info_def lookup_try_def requests_get_def raise_for_status_def
      response_json_def and_then_def)

lemma card_info_Inr:
  "card_info card_data = Inr info \<Longrightarrow>
   \<exists>c. card_data = JObject c \<and> info = JObject
         [(''name'', dict_get c ''name''),
          (''mana_cost'', dict_get c ''manaCost''),
          (''type'', dict_get c ''type''),
          (''text'', dict_get c ''text''),
          (''power'', dict_get c ''power''),
          (''toughness'', dict_get c ''toughness''),
          (''image_url'', dict_get c ''imageUrl'')]"
  by (cases card_data) (auto simp: card_info_def and_then_def)

lemma lookup_try_Inr:
  "lookup_try api n = Inr info \<Longrightarrow> info = JNull \<or> (\<exists>card_data. card_info card_data = Inr info)"
  by (auto simp: lookup_try_def and_then_def split: sum.splits if_splits)

lemma lookup_Inr:
  assumes "get_mtg_card_info api n = Inr info"
  shows "info = JNull \<or> (\<exists>card_data. card_info card_data = Inr info)"
proof (cases "lookup_try api n")
  case (Inl e)
  with assms show ?thesis by (auto simp: get_mtg_card_info_def split: if_splits)
next
  case (Inr r)
  with assms have "lookup_try api n = Inr info" by (simp add: get_mtg_card_info_def)
  then show ?thesis by (rule lookup_try_Inr)
qed

lemma handler_200:
  assumes "mtg_card_tool str_of api req = Inr (payload, 200)"
  shows "\<exists>n. get_mtg_card_info api n = Inr payload \<and> truthy payload"
  using assms
  by (auto simp: mtg_card_tool_def and_then_def error_payload_def Let_def
      split: if_splits sum.splits)

lemma missing_card_name_400:
  assumes "http_method req = ''POST''" and "is_json req"
    and "json_body req = None \<or> (\<exists>j. json_body req = Some j \<and> \<not> truthy j)
         \<or> (\<exists>kvs. json_body req = Some (JObject kvs) \<and> ''card_name'' \<notin> fst ` set kvs)"
  shows "mtg_card_tool str_of api req =
     Inr (JObject [(''error'', JString ''Missing 'card_name' in JSON payload.'')], 400)"
  using assms
  by (auto simp: mtg_card_tool_def card_name_missing_def get_json_silent_def and_then_def
      error_payload_def Let_def)

lemma found_reply_for_object_card:
  assumes "http_method req = ''POST''" and "is_json req"
    and "json_body req = Some (JObject kvs)" and "map_of kvs ''card_name'' = Some v"
    and "api v = Some \<lparr>status_code = s, body = Some (JObject d)\<rparr>"
    and "200 \<le> s" and "s < 300"
    and "map_of d ''cards'' = Some (JArray (JObject c # rest))"
  shows "mtg_card_tool str_of api req = Inr (JObject
         [(''name'', case map_of c ''name'' of None \<Rightarrow> JNull | Some x \<Rightarrow> x),
          (''mana_cost'', case map_of c ''manaCost'' of None \<Rightarrow> JNull | Some x \<Rightarrow> x),
          (''type'', case map_of c ''type'' of None \<Rightarrow> JNull | Some x \<Rightarrow> x),
          (''text'', case map_of c ''text'' of None \<Rightarrow> JNull | Some x \<Rightarrow> x),
          (''power'', case map_of c ''power'' of None \<Rightarrow> JNull | Some x \<Rightarrow> x),
          (''toughness'', case map_of c ''toughness'' of None \<Rightarrow> JNull | Some x \<Rightarrow> x),
          (''image_url'', case map_of c ''imageUrl'' of None \<Rightarrow> JNull | Some x \<Rightarrow> x)], 200)"
proof -
  from assms(6,7) have ok: "s < 400 \<or> 600 \<le> s" by simp
  show ?thesis
    by (simp add: handler_with_card_name [OF assms(1-4)]
        lookup_found [of api v, OF assms(5) ok assms(8)] dict_get_def)
qed

section \<open>The claims\<close>

text \<open>
  C1. Lookup is meant to return a card dictionary or \<^verbatim>\<open>None\<close> and never to raise. The
  \<^verbatim>\<open>except\<close> clauses do not cover a \<^verbatim>\<open>TypeError\<close>: when the upstream answers 200 with
  the body \<^verbatim>\<open>{"cards": 5}\<close>, the subscript \<^verbatim>\<open>data['cards'][0]\<close> raises it and the exception
  leaves \<^verbatim>\<open>get_mtg_card_info\<close>.
\<close>

theorem lookup_raises_on_malformed_cards:
  "get_mtg_card_info
     (\<lambda>_. Some \<lparr>status_code = 200, body = Some (JObject [(''cards'', JInt 5)])\<rparr>)
     (JString ''Black Lotus'') = Inl TypeError"
  by (simp add: get_mtg_card_info_def lookup_try_def requests_get_def raise_for_status_def
      response_json_def and_then_def dict_get_def)

text \<open>
  C2. A POST request with a JSON body carrying \<^verbatim>\<open>card_name\<close>, answered upstream with a 2xx
  status and an object with a non-empty \<^verbatim>\<open>cards\<close> array, is meant to get status 200 and the
  seven fields of the first element, missing fields as \<^verbatim>\<open>None\<close> rather than an error. When
  the first element is not an object, as in \<^verbatim>\<open>{"cards": [5]}\<close>, \<^verbatim>\<open>card_data.get('name')\<close>
  raises \<^verbatim>\<open>AttributeError\<close>, which no \<^verbatim>\<open>except\<close> clause covers, and the handler returns no
  reply. (For a first element that is an object the reply is as described:
  \<^verbatim>\<open>found_reply_for_object_card\<close>.)
\<close>

theorem first_card_not_object_raises:
  "mtg_card_tool str_of
     (\<lambda>_. Some \<lparr>status_code = 200, body = Some (JObject [(''cards'', JArray [JInt 5])])\<rparr>)
     \<lparr>http_method = ''POST'', is_json = True,
      json_body = Some (JObject [(''card_name'', JString ''Black Lotus'')])\<rparr>
   = Inl AttributeError"
  by (simp add: mtg_card_tool_def card_name_missing_def get_json_silent_def
      get_mtg_card_info_def lookup_try_def card_info_def requests_get_def raise_for_status_def
      response_json_def and_then_def dict_get_def)

text \<open>
  C3. For a POST request with a JSON body carrying \<^verbatim>\<open>card_name\<close>, an upstream answer with
  an empty \<^verbatim>\<open>cards\<close> array, a transport failure and an upstream body that is not JSON give
  one and the same reply: status 404 with the error message naming the card.
\<close>

theorem misses_indistinguishable:
  assumes "http_method req = ''POST''" and "is_json req"
    and "json_body req = Some (JObject kvs)" and "map_of kvs ''card_name'' = Some v"
    and "api_empty v = Some \<lparr>status_code = s1, body = Some (JObject d)\<rparr>"
    and "map_of d ''cards'' = Some (JArray [])"
    and "api_down v = None"
    and "api_garbled v = Some \<lparr>status_code = s2, body = None\<rparr>"
  shows "mtg_card_tool str_of api_empty req =
           Inr (JObject [(''error'', JString (''Card '' @ [CHR 0x27] @ format_value str_of v
                  @ [CHR 0x27] @ '' not found or API is unavailable.''))], 404)
     \<and> mtg_card_tool str_of api_down req = mtg_card_tool str_of api_empty req
     \<and> mtg_card_tool str_of api_garbled req = mtg_card_tool str_of api_empty req"
proof -
  have "\<not> truthy (dict_get d ''cards'')" using assms(6) by (simp add: dict_get_def)
  with assms(5) have e: "get_mtg_card_info api_empty v = Inr JNull"
    using lookup_falsy_cards [of api_empty v "\<lparr>status_code = s1, body = Some (JObject d)\<rparr>" d]
    by simp
  have n: "get_mtg_card_info api_down v = Inr JNull"
    using assms(7) by (rule lookup_network_failure)
  have g: "get_mtg_card_info api_garbled v = Inr JNull"
    using assms(8) lookup_malformed_json [of api_garbled v "\<lparr>status_code = s2, body = None\<rparr>"]
    by simp
  show ?thesis
    by (simp add: handler_with_card_name [OF assms(1-4)] e n g error_payload_def
        not_found_message_def)
qed

theorem misses_indistinguishable_witness:
  "mtg_card_tool (\<lambda>_. [])
     (\<lambda>_. Some \<lparr>status_code = 200, body = Some (JObject [(''cards'', JArray [])])\<rparr>)
     \<lparr>http_method = ''POST'', is_json = True,
      json_body = Some (JObject [(''card_name'', JString ''Nonexistent Card XYZ'')])\<rparr>
   = Inr (JObject [(''error'',
        JString ''Card 'Nonexistent Card XYZ' not found or API is unavailable.'')], 404)
   \<and> mtg_card_tool (\<lambda>_. []) (\<lambda>_. None)
     \<lparr>http_method = ''POST'', is_json = True,
      json_body = Some (JObject [(''card_name'', JString ''Nonexistent Card XYZ'')])\<rparr>
   = Inr (JObject [(''error'',
        JString ''Card 'Nonexistent Card XYZ' not found or API is unavailable.'')], 404)
   \<and> mtg_card_tool (\<lambda>_. []) (\<lambda>_. Some \<lparr>status_code = 200, body = None\<rparr>)
     \<lparr>http_method = ''POST'', is_json = True,
      json_body = Some (JObject [(''card_name'', JString ''Nonexistent Card XYZ'')])\<rparr>
   = Inr (JObject [(''error'',
        JString ''Card 'Nonexistent Card XYZ' not found or API is unavailable.'')], 404)"
  using misses_indistinguishable [of
      "\<lparr>http_method = ''POST'', is_json = True,
        json_body = Some (JObject [(''card_name'', JString ''Nonexistent Card XYZ'')])\<rparr>"
      "[(''card_name'', JString ''Nonexistent Card XYZ'')]"
      "JString ''Nonexistent Card XYZ''"
      "\<lambda>_. Some \<lparr>status_code = 200, body = Some (JObject [(''cards'', JArray [])])\<rparr>"
      200 "[(''cards'', JArray [])]"
      "\<lambda>_. None"
      "\<lambda>_. Some \<lparr>status_code = 200, body = None\<rparr>" 200
      "\<lambda>_. []"]
  by (simp add: format_value_def)

text \<open>
  C4. A POST request with a JSON content type whose body has no key \<^verbatim>\<open>card_name\<close> is meant
  to be answered with status 400. The validation assumes a dict: for the body \<^verbatim>\<open>5\<close>, which
  is valid JSON and has no such key, the test \<^verbatim>\<open>"card_name" not in request_json\<close> raises
  \<^verbatim>\<open>TypeError\<close> and the handler returns no reply at all. (A body that is not JSON, a falsy
  body and an object without the key do get the 400: \<^verbatim>\<open>missing_card_name_400\<close>.)
\<close>

theorem non_object_body_raises:
  "mtg_card_tool str_of api
     \<lparr>http_method = ''POST'', is_json = True, json_body = Some (JInt 5)\<rparr> = Inl TypeError"
  by (simp add: mtg_card_tool_def card_name_missing_def get_json_silent_def and_then_def)

text \<open>
  C5. A POST request whose JSON object body has the key \<^verbatim>\<open>card_name\<close>, whatever its value
  (the empty string included), is never answered with 400: the handler's reply is decided
  by the result of Lookup on exactly that value.
\<close>

theorem present_card_name_reaches_lookup:
  assumes "http_method req = ''POST''" and "is_json req"
    and "json_body req = Some (JObject kvs)" and "map_of kvs ''card_name'' = Some v"
  shows "mtg_card_tool str_of api req =
           (case get_mtg_card_info api v of
              Inl e \<Rightarrow> Inl e
            | Inr card_data \<Rightarrow>
                if truthy card_data then Inr (card_data, 200)
                else Inr (JObject [(''error'', JString (''Card '' @ [CHR 0x27]
                  @ format_value str_of v @ [CHR 0x27]
                  @ '' not found or API is unavailable.''))], 404))
     \<and> (\<forall>payload. mtg_card_tool str_of api req \<noteq> Inr (payload, 400))"
  by (simp add: handler_with_card_name [OF assms] error_payload_def not_found_message_def
      split: sum.splits)

theorem present_card_name_reaches_lookup_witness:
  "mtg_card_tool (\<lambda>_. [])
      (\<lambda>n. if n = JString [] then None
            else Some \<lparr>status_code = 200, body = Some (JObject [(''cards'', JInt 5)])\<rparr>)
      \<lparr>http_method = ''POST'', is_json = True,
       json_body = Some (JObject [(''card_name'', JString [])])\<rparr>
   = Inr (JObject [(''error'',
        JString (''Card '' @ [CHR 0x27, CHR 0x27] @ '' not found or API is unavailable.''))], 404)"
  using present_card_name_reaches_lookup [of
      "\<lparr>http_method = ''POST'', is_json = True,
        json_body = Some (JObject [(''card_name'', JString [])])\<rparr>"
      "[(''card_name'', JString [])]" "JString []" "\<lambda>_. []"
      "\<lambda>n. if n = JString [] then None
            else Some \<lparr>status_code = 200, body = Some (JObject [(''cards'', JInt 5)])\<rparr>"]
    lookup_network_failure [of
      "\<lambda>n. if n = JString [] then None
            else Some \<lparr>status_code = 200, body = Some (JObject [(''cards'', JInt 5)])\<rparr>"
      "JString []"]
  by (simp add: format_value_def)

text \<open>
  C6, as stated: whenever Lookup returns \<^verbatim>\<open>None\<close>, the 404 message carries the exact value
  submitted as \<^verbatim>\<open>card_name\<close>, verbatim. This fails for a value that is not a string: the
  body \<^verbatim>\<open>{"card_name": null}\<close> is answered with \<^verbatim>\<open>Card 'None' not found ...\<close>, not with
  \<^verbatim>\<open>Card 'null' not found ...\<close>.
\<close>

theorem null_card_name_not_verbatim:
  "get_mtg_card_info (\<lambda>_. None) JNull = Inr JNull
   \<and> mtg_card_tool (\<lambda>_. []) (\<lambda>_. None)
        \<lparr>http_method = ''POST'', is_json = True,
         json_body = Some (JObject [(''card_name'', JNull)])\<rparr>
     = Inr (JObject [(''error'',
          JString ''Card 'None' not found or API is unavailable.'')], 404)
   \<and> mtg_card_tool (\<lambda>_. []) (\<lambda>_. None)
        \<lparr>http_method = ''POST'', is_json = True,
         json_body = Some (JObject [(''card_name'', JNull)])\<rparr>
     \<noteq> Inr (JObject [(''error'',
          JString ''Card 'null' not found or API is unavailable.'')], 404)"
  by (simp add: mtg_card_tool_def card_name_missing_def get_json_silent_def
      get_mtg_card_info_def lookup_try_def requests_get_def and_then_def error_payload_def
      not_found_message_def format_value_def)

text \<open>
  C6, amended: whenever Lookup returns \<^verbatim>\<open>None\<close> for the submitted card name, the reply is
  status 404 with the message \<^verbatim>\<open>Card '<card_name>' not found or API is unavailable.\<close>, where
  \<^verbatim>\<open><card_name>\<close> is Python's \<^verbatim>\<open>str()\<close> of the submitted value: a string verbatim, an
  integer as its decimal digits, \<^verbatim>\<open>null\<close>, \<^verbatim>\<open>true\<close> and \<^verbatim>\<open>false\<close> as \<^verbatim>\<open>None\<close>, \<^verbatim>\<open>True\<close> and
  \<^verbatim>\<open>False\<close>, an array as the bracketed, comma-separated renderings of its elements and an
  object as the braced, comma-separated \<^verbatim>\<open>key: value\<close> renderings of its members. How a
  float, and a string inside an array or object, is rendered is left open.
\<close>

theorem no_result_gives_404:
  assumes "http_method req = ''POST''" and "is_json req"
    and "json_body req = Some (JObject kvs)" and "map_of kvs ''card_name'' = Some v"
    and "get_mtg_card_info api v = Inr JNull"
  shows "mtg_card_tool str_of api req =
           Inr (JObject [(''error'', JString (''Card '' @ [CHR 0x27] @ format_value str_of v
                  @ [CHR 0x27] @ '' not found or API is unavailable.''))], 404)
     \<and> (\<forall>name. v = JString name \<longrightarrow> format_value str_of v = name)
     \<and> (\<forall>i. v = JInt i \<longrightarrow> format_value str_of v = show_int i)
     \<and> (v = JNull \<longrightarrow> format_value str_of v = ''None'')
     \<and> (v = JBool True \<longrightarrow> format_value str_of v = ''True'')
     \<and> (v = JBool False \<longrightarrow> format_value str_of v = ''False'')
     \<and> (\<forall>xs. v = JArray xs \<longrightarrow> format_value str_of v
            = ''['' @ str_join '', '' (map (py_repr str_of) xs) @ '']'')
     \<and> (\<forall>ms. v = JObject ms \<longrightarrow> format_value str_of v
            = ''{'' @ str_join '', ''
                (map (\<lambda>(k, x). str_of (JString k) @ '': '' @ py_repr str_of x) ms) @ ''}'')"
  by (simp add: handler_with_card_name [OF assms(1-4)] assms(5) error_payload_def
      not_found_message_def format_value_def)

theorem no_result_gives_404_witness:
  "mtg_card_tool (\<lambda>_. []) (\<lambda>_. Some \<lparr>status_code = 503, body = None\<rparr>)
     \<lparr>http_method = ''POST'', is_json = True,
      json_body = Some (JObject [(''other'', JInt 1), (''card_name'', JString ''Lightning Bolt'')])\<rparr>
   = Inr (JObject [(''error'',
        JString ''Card 'Lightning Bolt' not found or API is unavailable.'')], 404)
   \<and> mtg_card_tool (\<lambda>_. []) (\<lambda>_. Some \<lparr>status_code = 503, body = None\<rparr>)
     \<lparr>http_method = ''POST'', is_json = True,
      json_body = Some (JObject [(''card_name'', JArray [JInt (- 42), JBool True, JNull])])\<rparr>
   = Inr (JObject [(''error'',
        JString ''Card '[-42, True, None]' not found or API is unavailable.'')], 404)"
  using no_result_gives_404 [of
      "\<lparr>http_method = ''POST'', is_json = True,
        json_body = Some (JObject [(''other'', JInt 1), (''card_name'', JString ''Lightning Bolt'')])\<rparr>"
      "[(''other'', JInt 1), (''card_name'', JString ''Lightning Bolt'')]"
      "JString ''Lightning Bolt''"
      "\<lambda>_. Some \<lparr>status_code = 503, body = None\<rparr>" "\<lambda>_. []"]
    no_result_gives_404 [of
      "\<lparr>http_method = ''POST'', is_json = True,
        json_body = Some (JObject [(''card_name'', JArray [JInt (- 42), JBool True, JNull])])\<rparr>"
      "[(''card_name'', JArray [JInt (- 42), JBool True, JNull])]"
      "JArray [JInt (- 42), JBool True, JNull]"
      "\<lambda>_. Some \<lparr>status_code = 503, body = None\<rparr>" "\<lambda>_. []"]
    lookup_http_error [of "\<lambda>_. Some \<lparr>status_code = 503, body = None\<rparr>"
      "JString ''Lightning Bolt''" "\<lparr>status_code = 503, body = None\<rparr>"]
    lookup_http_error [of "\<lambda>_. Some \<lparr>status_code = 503, body = None\<rparr>"
      "JArray [JInt (- 42), JBool True, JNull]" "\<lparr>status_code = 503, body = None\<rparr>"]
  by (simp add: show_int_def show_nat.simps digit_char_def)

text \<open>
  C7. Every request whose method is not \<^verbatim>\<open>POST\<close> is answered with status 405 and the
  fixed message, whatever its content type and body: the method is checked first.
\<close>

theorem non_post_gives_405:
  assumes "http_method req \<noteq> ''POST''"
  shows "mtg_card_tool str_of api req =
     Inr (JObject [(''error'', JString ''Invalid request method. Please use POST.'')], 405)"
  using assms by (simp add: mtg_card_tool_def error_payload_def)

theorem non_post_gives_405_witness:
  "mtg_card_tool (\<lambda>_. []) (\<lambda>_. None)
     \<lparr>http_method = ''GET'', is_json = False, json_body = Some (JInt 5)\<rparr>
   = Inr (JObject [(''error'', JString ''Invalid request method. Please use POST.'')], 405)"
  using non_post_gives_405 [of
      "\<lparr>http_method = ''GET'', is_json = False, json_body = Some (JInt 5)\<rparr>"
      "\<lambda>_. []" "\<lambda>_. None"]
  by simp

text \<open>
  C8. Every \<^verbatim>\<open>POST\<close> request whose content type is not JSON is answered with status 415
  and the fixed message; the body plays no part, as it is not looked at before this check.
\<close>

theorem non_json_post_gives_415:
  assumes "http_method req = ''POST''" and "\<not> is_json req"
  shows "mtg_card_tool str_of api (req\<lparr>json_body := b\<rparr>) =
     Inr (JObject [(''error'', JString ''Invalid content type. Please send a JSON payload.'')],
          415)"
  using assms by (simp add: mtg_card_tool_def error_payload_def)

theorem non_json_post_gives_415_witness:
  "mtg_card_tool (\<lambda>_. []) (\<lambda>_. None)
     \<lparr>http_method = ''POST'', is_json = False, json_body = Some (JInt 5)\<rparr>
   = Inr (JObject [(''error'', JString ''Invalid content type. Please send a JSON payload.'')],
          415)"
  using non_json_post_gives_415 [of
      "\<lparr>http_method = ''POST'', is_json = False, json_body = None\<rparr>"
      "\<lambda>_. []" "\<lambda>_. None" "Some (JInt 5)"]
  by simp

text \<open>
  C9. The dictionary built from a card has exactly the seven keys \<^verbatim>\<open>name\<close>, \<^verbatim>\<open>mana_cost\<close>,
  \<^verbatim>\<open>type\<close>, \<^verbatim>\<open>text\<close>, \<^verbatim>\<open>power\<close>, \<^verbatim>\<open>toughness\<close>, \<^verbatim>\<open>image_url\<close>, and a field the
  upstream card lacks is present with the value \<^verbatim>\<open>None\<close>. Hence every dictionary Lookup
  returns, and every body of a 200 reply, has exactly these seven keys.
\<close>

theorem card_info_has_seven_keys:
  "(card_info card_data = Inr info \<longrightarrow>
      (\<exists>c kvs. card_data = JObject c \<and> info = JObject kvs
         \<and> map fst kvs = [''name'', ''mana_cost'', ''type'', ''text'', ''power'',
                           ''toughness'', ''image_url'']
         \<and> (\<forall>(k_out, k_in) \<in> set (zip (map fst kvs)
                [''name'', ''manaCost'', ''type'', ''text'', ''power'', ''toughness'',
                 ''imageUrl'']).
               k_in \<notin> fst ` set c \<longrightarrow> map_of kvs k_out = Some JNull)))
   \<and> (get_mtg_card_info api n = Inr result \<and> result \<noteq> JNull \<longrightarrow>
      (\<exists>kvs. result = JObject kvs
         \<and> map fst kvs = [''name'', ''mana_cost'', ''type'', ''text'', ''power'',
                           ''toughness'', ''image_url'']))
   \<and> (mtg_card_tool str_of api req = Inr (payload, 200) \<longrightarrow>
      (\<exists>kvs. payload = JObject kvs
         \<and> map fst kvs = [''name'', ''mana_cost'', ''type'', ''text'', ''power'',
                           ''toughness'', ''image_url'']))"
proof (intro conjI impI)
  assume "card_info card_data = Inr info"
  then obtain c where c: "card_data = JObject c" "info = JObject
         [(''name'', dict_get c ''name''),
          (''mana_cost'', dict_get c ''manaCost''),
          (''type'', dict_get c ''type''),
          (''text'', dict_get c ''text''),
          (''power'', dict_get c ''power''),
          (''toughness'', dict_get c ''toughness''),
          (''image_url'', dict_get c ''imageUrl'')]"
    using card_info_Inr by blast
  have null: "\<And>k. k \<notin> fst ` set c \<Longrightarrow> dict_get c k = JNull"
    by (auto simp: dict_get_def split: option.splits dest: map_of_in_keys)
  show "\<exists>c kvs. card_data = JObject c \<and> info = JObject kvs
         \<and> map fst kvs = [''name'', ''mana_cost'', ''type'', ''text'', ''power'',
                           ''toughness'', ''image_url'']
         \<and> (\<forall>(k_out, k_in) \<in> set (zip (map fst kvs)
                [''name'', ''manaCost'', ''type'', ''text'', ''power'', ''toughness'',
                 ''imageUrl'']).
               k_in \<notin> fst ` set c \<longrightarrow> map_of kvs k_out = Some JNull)"
    using c null by simp
next
  assume "get_mtg_card_info api n = Inr result \<and> result \<noteq> JNull"
  then obtain cd where "card_info cd = Inr result"
    using lookup_Inr by blast
  then show "\<exists>kvs. result = JObject kvs
         \<and> map fst kvs = [''name'', ''mana_cost'', ''type'', ''text'', ''power'',
                           ''toughness'', ''image_url'']"
    using card_info_Inr by fastforce
next
  assume "mtg_card_tool str_of api req = Inr (payload, 200)"
  then obtain n where "get_mtg_card_info api n = Inr payload" "truthy payload"
    using handler_200 by blast
  then obtain cd where "card_info cd = Inr payload"
    using lookup_Inr by fastforce
  then show "\<exists>kvs. payload = JObject kvs
         \<and> map fst kvs = [''name'', ''mana_cost'', ''type'', ''text'', ''power'',
                           ''toughness'', ''image_url'']"
    using card_info_Inr by fastforce
qed

theorem card_info_has_seven_keys_witness:
  "\<exists>kvs. get_mtg_card_info
       (\<lambda>_. Some \<lparr>status_code = 200, body = Some (JObject [(''cards'',
          JArray [JObject [(''name'', JString ''Opt''), (''id'', JInt 7)]])])\<rparr>)
       (JString ''Opt'') = Inr (JObject kvs)
     \<and> mtg_card_tool (\<lambda>_. [])
       (\<lambda>_. Some \<lparr>status_code = 200, body = Some (JObject [(''cards'',
          JArray [JObject [(''name'', JString ''Opt''), (''id'', JInt 7)]])])\<rparr>)
       \<lparr>http_method = ''POST'', is_json = True,
        json_body = Some (JObject [(''card_name'', JString ''Opt'')])\<rparr> = Inr (JObject kvs, 200)
     \<and> map fst kvs = [''name'', ''mana_cost'', ''type'', ''text'', ''power'', ''toughness'',
                       ''image_url'']
     \<and> map_of kvs ''name'' = Some (JString ''Opt'')
     \<and> map_of kvs ''power'' = Some JNull"
proof -
  let ?c = "[(''name'', JString ''Opt''), (''id'', JInt 7)]"
  let ?d = "[(''cards'', JArray [JObject ?c])]"
  let ?api = "\<lambda>_::json. Some \<lparr>status_code = 200, body = Some (JObject ?d)\<rparr>"
  let ?req = "\<lparr>http_method = ''POST'', is_json = True,
        json_body = Some (JObject [(''card_name'', JString ''Opt'')])\<rparr>"
  let ?info = "JObject [(''name'', JString ''Opt''), (''mana_cost'', JNull), (''type'', JNull),
      (''text'', JNull), (''power'', JNull), (''toughness'', JNull), (''image_url'', JNull)]"
  have h1: "card_info (JObject ?c) = Inr ?info"
    by (simp add: card_info_def and_then_def dict_get_def)
  have h2: "get_mtg_card_info ?api (JString ''Opt'') = Inr ?info"
    using lookup_found [of ?api "JString ''Opt''" 200 ?d ?c "[]"] by (simp add: dict_get_def)
  have h3: "mtg_card_tool (\<lambda>_. []) ?api ?req = Inr (?info, 200)"
    using handler_with_card_name [of ?req "[(''card_name'', JString ''Opt'')]" "JString ''Opt''"
        "\<lambda>_. []" ?api] h2
    by simp
  show ?thesis
    using card_info_has_seven_keys [of "JObject ?c" ?info ?api "JString ''Opt''" ?info
        "\<lambda>_. []" ?req ?info] h1 h2 h3
    by simp
qed

text \<open>
  C10. When the first element of the upstream \<^verbatim>\<open>cards\<close> array is an object with none of
  the seven extracted fields (the empty object in particular), the reply is still status
  200, with all seven fields \<^verbatim>\<open>None\<close>: the dictionary built is never empty, hence truthy.
\<close>

theorem fieldless_card_gives_200:
  assumes "http_method req = ''POST''" and "is_json req"
    and "json_body req = Some (JObject kvs)" and "map_of kvs ''card_name'' = Some v"
    and "api v = Some \<lparr>status_code = s, body = Some (JObject d)\<rparr>"
    and "s < 400 \<or> 600 \<le> s"
    and "map_of d ''cards'' = Some (JArray (JObject c # rest))"
    and "set [''name'', ''manaCost'', ''type'', ''text'', ''power'', ''toughness'', ''imageUrl'']
           \<inter> fst ` set c = {}"
  shows "mtg_card_tool str_of api req = Inr (JObject
         [(''name'', JNull),
          (''mana_cost'', JNull),
          (''type'', JNull),
          (''text'', JNull),
          (''power'', JNull),
          (''toughness'', JNull),
          (''image_url'', JNull)], 200)"
proof -
  have null: "\<And>k. k \<notin> fst ` set c \<Longrightarrow> dict_get c k = JNull"
    by (auto simp: dict_get_def split: option.splits dest: map_of_in_keys)
  from assms(8) have "dict_get c ''name'' = JNull" "dict_get c ''manaCost'' = JNull"
    "dict_get c ''type'' = JNull" "dict_get c ''text'' = JNull" "dict_get c ''power'' = JNull"
    "dict_get c ''toughness'' = JNull" "dict_get c ''imageUrl'' = JNull"
    by (simp_all add: null)
  then show ?thesis
    by (simp add: handler_with_card_name [OF assms(1-4)]
        lookup_found [of api v, OF assms(5-7)])
qed

theorem fieldless_card_gives_200_witness:
  "mtg_card_tool (\<lambda>_. [])
     (\<lambda>_. Some \<lparr>status_code = 200, body = Some (JObject [(''cards'', JArray [JObject []])])\<rparr>)
     \<lparr>http_method = ''POST'', is_json = True,
      json_body = Some (JObject [(''card_name'', JString ''Opt'')])\<rparr>
   = Inr (JObject
         [(''name'', JNull),
          (''mana_cost'', JNull),
          (''type'', JNull),
          (''text'', JNull),
          (''power'', JNull),
          (''toughness'', JNull),
          (''image_url'', JNull)], 200)"
  using fieldless_card_gives_200 [of
      "\<lparr>http_method = ''POST'', is_json = True,
        json_body = Some (JObject [(''card_name'', JString ''Opt'')])\<rparr>"
      "[(''card_name'', JString ''Opt'')]" "JString ''Opt''"
      "\<lambda>_. Some \<lparr>status_code = 200, body = Some (JObject [(''cards'', JArray [JObject []])])\<rparr>"
      200 "[(''cards'', JArray [JObject []])]" "[]" "[]" "\<lambda>_. []"]
  by simp

end
